theory Spec2Isabelle
  imports Complex_Main "HOL-Library.Monad_Syntax"
begin

section \<open>AI Clinical Assistant: the request handler of \<^verbatim>\<open>main.py\<close>\<close>

text \<open>
  The service has one operation, \<^verbatim>\<open>POST /analyze\<close>: the body is validated against
  the \<^verbatim>\<open>PatientInput\<close> model, the handler computes the BMI, asks the generative
  model for a JSON analysis (with a hard-coded analysis when that fails) and builds a
  \<^verbatim>\<open>ClinicalSummaryResponse\<close> from the patient and the analysis.

  Conventions of the embedding:
  \<^item> a Python \<^verbatim>\<open>str\<close> is a \<open>string\<close>, an \<^verbatim>\<open>int\<close> an \<open>int\<close>;
  \<^item> a Python \<^verbatim>\<open>float\<close> is an exact rational (\<open>rat\<close>): binary rounding, overflow,
    underflow, infinities and NaN are outside the model;
  \<^item> an exception is a value of \<open>py_error\<close> on the left of a sum;
  \<^item> what the libraries do (the JSON parser, the type conversions of pydantic, the
    printing of floats, the generative model itself) is a parameter.
\<close>

subsection \<open>JSON values and library behaviour\<close>

text \<open>
  A decoded JSON document, as \<^verbatim>\<open>json.loads\<close> returns it. An object is an association
  list read through \<open>map_of\<close>; its keys are \<open>map fst\<close> of the list.
\<close>

datatype json =
    JNull
  | JBool bool
  | JInt int
  | JFloat rat
  | JString string
  | JArray "json list"
  | JObject "(string \<times> json) list"

datatype py_error = ZeroDivisionError | TypeError | ValidationError

text \<open>
  Library behaviour that the program relies on and does not define:
  \<^item> \<open>loads\<close> is \<^verbatim>\<open>json.loads\<close>: \<open>None\<close> when it raises;
  \<^item> \<open>float_str\<close> is the text an f-string prints for a float;
  \<^item> \<open>lax_str\<close>, \<open>lax_int\<close>, \<open>lax_float\<close>, \<open>lax_bool\<close> are the conversions pydantic
    applies to a value that is not already of the field's type (for instance a JSON
    string given for an \<^verbatim>\<open>int\<close> field); \<open>None\<close> when pydantic rejects the value.
\<close>

record library =
  loads :: "string \<Rightarrow> json option"
  float_str :: "rat \<Rightarrow> string"
  lax_str :: "json \<Rightarrow> string option"
  lax_int :: "json \<Rightarrow> int option"
  lax_float :: "json \<Rightarrow> rat option"
  lax_bool :: "json \<Rightarrow> bool option"

text \<open>
  Validation of one value against a field type. A value of the declared type is taken
  as it is, \<^verbatim>\<open>null\<close> is rejected (the field is not \<^verbatim>\<open>Optional\<close>), anything else is
  left to the library's conversion.
\<close>

definition to_str :: "library \<Rightarrow> json \<Rightarrow> string option" where
  "to_str lib v = (case v of JString s \<Rightarrow> Some s | JNull \<Rightarrow> None | _ \<Rightarrow> lax_str lib v)"

definition to_int :: "library \<Rightarrow> json \<Rightarrow> int option" where
  "to_int lib v = (case v of JInt n \<Rightarrow> Some n | JNull \<Rightarrow> None | _ \<Rightarrow> lax_int lib v)"

definition to_float :: "library \<Rightarrow> json \<Rightarrow> rat option" where
  "to_float lib v = (case v of JFloat q \<Rightarrow> Some q | JNull \<Rightarrow> None | _ \<Rightarrow> lax_float lib v)"

definition to_bool :: "library \<Rightarrow> json \<Rightarrow> bool option" where
  "to_bool lib v = (case v of JBool b \<Rightarrow> Some b | JNull \<Rightarrow> None | _ \<Rightarrow> lax_bool lib v)"

text \<open>\<^verbatim>\<open>List[str]\<close>: a JSON array whose elements all validate as \<^verbatim>\<open>str\<close>.\<close>

definition to_str_list :: "library \<Rightarrow> json \<Rightarrow> string list option" where
  "to_str_list lib v = (case v of JArray xs \<Rightarrow> those (map (to_str lib) xs) | _ \<Rightarrow> None)"

text \<open>\<^verbatim>\<open>Optional[T]\<close>: \<^verbatim>\<open>null\<close> is accepted as \<^verbatim>\<open>None\<close>.\<close>

definition optional :: "(json \<Rightarrow> 'a option) \<Rightarrow> json \<Rightarrow> 'a option option" where
  "optional conv v = (case v of JNull \<Rightarrow> Some None | _ \<Rightarrow> map_option Some (conv v))"

text \<open>A field without a default is required; a field with a default may be absent.\<close>

definition field :: "(json \<Rightarrow> 'a option) \<Rightarrow> (string \<times> json) list \<Rightarrow> string \<Rightarrow> 'a option" where
  "field conv kvs k = (case map_of kvs k of None \<Rightarrow> None | Some v \<Rightarrow> conv v)"

definition field_default ::
  "(json \<Rightarrow> 'a option) \<Rightarrow> (string \<times> json) list \<Rightarrow> string \<Rightarrow> 'a \<Rightarrow> 'a option" where
  "field_default conv kvs k d = (case map_of kvs k of None \<Rightarrow> Some d | Some v \<Rightarrow> conv v)"

subsection \<open>The data model\<close>

text \<open>
  \<^verbatim>\<open>PatientInput\<close> and \<^verbatim>\<open>ClinicalSummaryResponse\<close> both start with the fields
  \<^verbatim>\<open>patient_id, name, age, gender\<close>; they are two extensions of one record.
\<close>

record identity =
  patient_id :: string
  name :: string
  age :: int
  gender :: string

record PatientInput = identity +
  height_cm :: rat
  weight_kg :: rat
  bp_systolic :: int
  bp_diastolic :: int
  fasting_glucose :: int
  hba1c :: "rat option"
  total_cholesterol :: int
  hdl :: int
  ldl :: int
  triglycerides :: int
  smoker :: bool
  alcohol_units_per_week :: "int option"
  physical_activity_min_per_week :: "int option"
  "notes" :: "string option"

record ClinicalSummaryResponse = identity +
  bmi :: rat
  bp :: string
  glucose_hba1c :: string
  lipid_profile :: string
  summary :: string
  risk_score :: int
  risk_bucket :: string
  contributing_factors :: "string list"
  potential_future_risks :: "string list"
  personalized_recommendations :: "string list"
  recommended_lifestyle_programs :: "string list"

text \<open>
  Validation of a request body against \<^verbatim>\<open>PatientInput\<close>: every field is looked up
  and converted in the order of the class; the first failure ends the validation.
  The class declares types and defaults only, no bound on any number.
\<close>

definition parse_patient :: "library \<Rightarrow> (string \<times> json) list \<Rightarrow> PatientInput option" where
  "parse_patient lib kvs = do {
     v_patient_id \<leftarrow> field (to_str lib) kvs ''patient_id'';
     v_name \<leftarrow> field (to_str lib) kvs ''name'';
     v_age \<leftarrow> field (to_int lib) kvs ''age'';
     v_gender \<leftarrow> field (to_str lib) kvs ''gender'';
     v_height_cm \<leftarrow> field (to_float lib) kvs ''height_cm'';
     v_weight_kg \<leftarrow> field (to_float lib) kvs ''weight_kg'';
     v_bp_systolic \<leftarrow> field (to_int lib) kvs ''bp_systolic'';
     v_bp_diastolic \<leftarrow> field (to_int lib) kvs ''bp_diastolic'';
     v_fasting_glucose \<leftarrow> field (to_int lib) kvs ''fasting_glucose'';
     v_hba1c \<leftarrow> field_default (optional (to_float lib)) kvs ''hba1c'' None;
     v_total_cholesterol \<leftarrow> field (to_int lib) kvs ''total_cholesterol'';
     v_hdl \<leftarrow> field (to_int lib) kvs ''hdl'';
     v_ldl \<leftarrow> field (to_int lib) kvs ''ldl'';
     v_triglycerides \<leftarrow> field (to_int lib) kvs ''triglycerides'';
     v_smoker \<leftarrow> field_default (to_bool lib) kvs ''smoker'' False;
     v_alcohol \<leftarrow> field_default (optional (to_int lib)) kvs ''alcohol_units_per_week'' (Some 0);
     v_activity \<leftarrow>
       field_default (optional (to_int lib)) kvs ''physical_activity_min_per_week'' (Some 0);
     v_notes \<leftarrow> field_default (optional (to_str lib)) kvs ''notes'' None;
     Some \<lparr>patient_id = v_patient_id, name = v_name, age = v_age, gender = v_gender,
       height_cm = v_height_cm, weight_kg = v_weight_kg,
       bp_systolic = v_bp_systolic, bp_diastolic = v_bp_diastolic,
       fasting_glucose = v_fasting_glucose, hba1c = v_hba1c,
       total_cholesterol = v_total_cholesterol, hdl = v_hdl, ldl = v_ldl,
       triglycerides = v_triglycerides, smoker = v_smoker,
       alcohol_units_per_week = v_alcohol,
       physical_activity_min_per_week = v_activity, notes = v_notes\<rparr>
   }"

definition validate :: "library \<Rightarrow> json \<Rightarrow> py_error + PatientInput" where
  "validate lib body =
     (case body of
        JObject kvs \<Rightarrow>
          (case parse_patient lib kvs of None \<Rightarrow> Inl ValidationError | Some p \<Rightarrow> Inr p)
      | _ \<Rightarrow> Inl ValidationError)"

subsection \<open>BMI\<close>

text \<open>
  \<^verbatim>\<open>round(x, 1)\<close> rounds to the nearest multiple of one tenth, a tie to the even one.
\<close>

definition round_half_even :: "rat \<Rightarrow> int" where
  "round_half_even x =
     (let f = \<lfloor>x\<rfloor>; d = x - of_int f
      in if d < 1 / 2 then f else if 1 / 2 < d then f + 1 else if even f then f else f + 1)"

definition py_round1 :: "rat \<Rightarrow> rat" where
  "py_round1 x = of_int (round_half_even (x * 10)) / 10"

text \<open>
  \<^verbatim>\<open>round(weight / ((height / 100) ** 2), 1)\<close>; the division raises
  \<^verbatim>\<open>ZeroDivisionError\<close> when the divisor is zero.
\<close>

definition calculate_bmi :: "rat \<Rightarrow> rat \<Rightarrow> py_error + rat" where
  "calculate_bmi weight height =
     (let d = (height / 100) ^ 2
      in if d = 0 then Inl ZeroDivisionError else Inr (py_round1 (weight / d)))"

subsection \<open>Text\<close>

text \<open>\<^verbatim>\<open>str(n)\<close> for an integer: decimal digits, with a minus sign below zero.\<close>

fun str_nat :: "nat \<Rightarrow> string" where
  "str_nat n =
     (if n < 10 then [char_of (48 + n)] else str_nat (n div 10) @ [char_of (48 + n mod 10)])"

declare str_nat.simps [simp del]

definition str_int :: "int \<Rightarrow> string" where
  "str_int i = (if i < 0 then CHR ''-'' # str_nat (nat (- i)) else str_nat (nat i))"

text \<open>
  \<^verbatim>\<open>x or d\<close> inside an f-string: the default is printed when \<^verbatim>\<open>x\<close> is falsy, that is
  \<^verbatim>\<open>None\<close>, the float zero or the empty string.
\<close>

definition float_or :: "library \<Rightarrow> rat option \<Rightarrow> string \<Rightarrow> string" where
  "float_or lib x d =
     (case x of None \<Rightarrow> d | Some q \<Rightarrow> if q = 0 then d else float_str lib q)"

definition str_or :: "string option \<Rightarrow> string \<Rightarrow> string" where
  "str_or x d = (case x of None \<Rightarrow> d | Some s \<Rightarrow> if s = [] then d else s)"

text \<open>An \<^verbatim>\<open>Optional[int]\<close> printed directly: \<^verbatim>\<open>None\<close> prints as its name.\<close>

definition opt_int_str :: "int option \<Rightarrow> string" where
  "opt_int_str x = (case x of None \<Rightarrow> ''None'' | Some n \<Rightarrow> str_int n)"

text \<open>\<^verbatim>\<open>str.strip()\<close>, for the whitespace characters of ASCII.\<close>

definition is_space :: "char \<Rightarrow> bool" where
  "is_space c \<longleftrightarrow>
     c \<in> set [CHR 0x09, CHR 0x0A, CHR 0x0B, CHR 0x0C, CHR 0x0D,
              CHR 0x1C, CHR 0x1D, CHR 0x1E, CHR 0x1F, CHR 0x20]"

definition strip :: "string \<Rightarrow> string" where
  "strip s = rev (dropWhile is_space (rev (dropWhile is_space s)))"

text \<open>
  \<^verbatim>\<open>s.replace(old, new)\<close>: the occurrences of \<^verbatim>\<open>old\<close> are replaced from left to
  right, without overlap; an empty \<^verbatim>\<open>old\<close> matches before every character and at
  the end.
\<close>

fun replace :: "string \<Rightarrow> string \<Rightarrow> string \<Rightarrow> string" where
  "replace [] new s = new @ concat (map (\<lambda>c. c # new) s)"
| "replace (a # old) new [] = []"
| "replace (a # old) new (c # cs) =
     (if take (Suc (length old)) (c # cs) = a # old
      then new @ replace (a # old) new (drop (length old) cs)
      else c # replace (a # old) new cs)"

text \<open>
  \<^verbatim>\<open>response.text.strip().replace("```json", "").replace("```", "").strip()\<close>
\<close>

definition clean_text :: "string \<Rightarrow> string" where
  "clean_text t = strip (replace ''```'' [] (replace ''```json'' [] (strip t)))"

definition unlines :: "string list \<Rightarrow> string" where
  "unlines ls = concat (map (\<lambda>l. l @ ''\<newline>'') ls)"

text \<open>The arrow of the prompt, U+2192, in UTF-8.\<close>

definition arrow :: string where
  "arrow = [CHR 0xE2, CHR 0x86, CHR 0x92]"

subsection \<open>The prompt\<close>

definition build_prompt :: "library \<Rightarrow> PatientInput \<Rightarrow> rat \<Rightarrow> string" where
  \<open>build_prompt lib patient bmi_value = ''\<newline>'' @ unlines [
     ''You are a senior consultant physician. Analyze this real patient and return ONLY valid JSON:'',
     [],
     ''{'',
     ''  "summary": "3-4 sentence detailed clinical assessment",'',
     ''  "risk_score": 0-100,'',
     ''  "risk_bucket": "Normal" or "Potential Risk" or "High Risk",'',
     ''  "contributing_factors": list of 4-8 current health issues,'',
     ''  "potential_future_risks": list of 5-7 major risks in next 5-10 years,'',
     ''  "personalized_recommendations": list of 8-12 specific, actionable tips,'',
     ''  "recommended_lifestyle_programs": select 3-6 most relevant from this list only:'',
     ''    ["Weight Management & Nutrition", "Diabetes Prevention Program", "Hypertension Control",'',
     ''     "Smoking Cessation Support", "Active Lifestyle & Fitness", "Heart Health & Cholesterol",'',
     ''     "Stress & Sleep Optimization", "Alcohol Reduction Program", "General Wellness Checkup"]'',
     ''}'',
     [],
     ''PATIENT PROFILE:'',
     ''Name: '' @ name patient @ '', Age: '' @ str_int (age patient)
       @ '', Gender: '' @ gender patient,
     ''Height: '' @ float_str lib (height_cm patient) @ '' cm, Weight: ''
       @ float_str lib (weight_kg patient) @ '' kg '' @ arrow @ '' BMI: ''
       @ float_str lib bmi_value,
     ''BP: '' @ str_int (bp_systolic patient) @ ''/'' @ str_int (bp_diastolic patient)
       @ '' mmHg'',
     ''Fasting Glucose: '' @ str_int (fasting_glucose patient) @ '' mg/dL, HbA1c: ''
       @ float_or lib (hba1c patient) ''Not provided'' @ ''%'',
     ''Lipid Profile '' @ arrow @ '' Total: '' @ str_int (total_cholesterol patient)
       @ '', HDL: '' @ str_int (hdl patient) @ '', LDL: '' @ str_int (ldl patient)
       @ '', Triglycerides: '' @ str_int (triglycerides patient),
     ''Lifestyle '' @ arrow @ '' Smoker: '' @ (if smoker patient then ''Yes'' else ''No'')
       @ '', Alcohol: '' @ opt_int_str (alcohol_units_per_week patient)
       @ '' units/week, Activity: ''
       @ opt_int_str (physical_activity_min_per_week patient) @ '' min/week'',
     ''Notes: '' @ str_or (notes patient) ''None'',
     [],
     ''Return only clean JSON. No markdown.'']\<close>

subsection \<open>The analysis: the generative model, or the hard-coded fallback\<close>

text \<open>
  What \<^verbatim>\<open>model.generate_content(prompt)\<close> followed by \<^verbatim>\<open>.text\<close> gives: an
  exception, or the text of the answer.
\<close>

datatype reply = Raises | Text string

text \<open>The dictionary returned by the \<^verbatim>\<open>except\<close> branch.\<close>

definition fallback :: "PatientInput \<Rightarrow> json" where
  "fallback patient = JObject [
     (''summary'', JString (''High-risk profile detected for '' @ name patient
        @ '' with multiple cardiovascular and metabolic risk factors.'')),
     (''risk_score'', JInt 82),
     (''risk_bucket'', JString ''High Risk''),
     (''contributing_factors'', JArray [JString ''Obesity'', JString ''Hypertension'',
        JString ''Dyslipidemia'', JString ''Prediabetes/Diabetes'',
        JString (if smoker patient then ''Smoking'' else ''Sedentary lifestyle'')]),
     (''potential_future_risks'', JArray [JString ''Heart Attack'', JString ''Stroke'',
        JString ''Type 2 Diabetes'', JString ''Kidney Disease'',
        JString ''Peripheral Artery Disease'']),
     (''personalized_recommendations'', JArray [
        JString ''Lose 8-10% body weight in 6 months'', JString ''Walk 40 mins daily'',
        JString ''Follow DASH or Mediterranean diet'',
        JString (if smoker patient then ''Quit smoking immediately''
                 else ''Increase activity to 200+ min/week''),
        JString ''Limit salt <5g/day'', JString ''Sleep 7-9 hours'',
        JString ''Monitor BP daily'', JString ''Repeat HbA1c in 3 months'']),
     (''recommended_lifestyle_programs'', JArray [
        JString ''Weight Management & Nutrition'', JString ''Hypertension Control'',
        JString ''Diabetes Prevention Program'', JString ''Heart Health & Cholesterol''])]"

text \<open>
  The body of the \<^verbatim>\<open>try\<close>: \<open>None\<close> when the call, the access to the text or
  \<^verbatim>\<open>json.loads\<close> raises. Whatever \<^verbatim>\<open>json.loads\<close> returns is returned unchanged.
\<close>

definition try_provider :: "library \<Rightarrow> (string \<Rightarrow> reply) \<Rightarrow> string \<Rightarrow> json option" where
  "try_provider lib generate_content prompt =
     (case generate_content prompt of
        Raises \<Rightarrow> None
      | Text t \<Rightarrow> loads lib (clean_text t))"

definition analyze_with_gemini ::
  "library \<Rightarrow> (string \<Rightarrow> reply) \<Rightarrow> PatientInput \<Rightarrow> rat \<Rightarrow> json" where
  "analyze_with_gemini lib generate_content patient bmi_value =
     (case try_provider lib generate_content (build_prompt lib patient bmi_value) of
        Some analysis \<Rightarrow> analysis
      | None \<Rightarrow> fallback patient)"

subsection \<open>The handler of \<^verbatim>\<open>POST /analyze\<close>\<close>

text \<open>
  \<^verbatim>\<open>ClinicalSummaryResponse(patient_id=..., ..., lipid_profile=..., **analysis)\<close>.
  The call raises \<^verbatim>\<open>TypeError\<close> when \<^verbatim>\<open>analysis\<close> is not a mapping or repeats one of
  the eight keywords written out in the call; then pydantic validates the seven fields
  taken from \<^verbatim>\<open>analysis\<close> (the other eight come from the validated patient) and raises
  \<^verbatim>\<open>ValidationError\<close> when one is absent or of the wrong type. Keys that the response
  model does not declare are ignored.
\<close>

definition explicit_keywords :: "string list" where
  "explicit_keywords = [''patient_id'', ''name'', ''age'', ''gender'', ''bmi'', ''bp'',
     ''glucose_hba1c'', ''lipid_profile'']"

definition glucose_hba1c_text :: "library \<Rightarrow> PatientInput \<Rightarrow> string" where
  "glucose_hba1c_text lib patient =
     str_int (fasting_glucose patient) @ '' mg/dL (HbA1c ''
       @ float_or lib (hba1c patient) ''N/A'' @ ''%)''"

definition build_response ::
  "library \<Rightarrow> PatientInput \<Rightarrow> rat \<Rightarrow> json \<Rightarrow> py_error + ClinicalSummaryResponse" where
  "build_response lib patient bmi_value analysis =
     (case analysis of
        JObject kvs \<Rightarrow>
          if list_ex (\<lambda>k. k \<in> set explicit_keywords) (map fst kvs) then Inl TypeError
          else
            (case do {
               v_summary \<leftarrow> field (to_str lib) kvs ''summary'';
               v_risk_score \<leftarrow> field (to_int lib) kvs ''risk_score'';
               v_risk_bucket \<leftarrow> field (to_str lib) kvs ''risk_bucket'';
               v_factors \<leftarrow> field (to_str_list lib) kvs ''contributing_factors'';
               v_risks \<leftarrow> field (to_str_list lib) kvs ''potential_future_risks'';
               v_recommendations \<leftarrow>
                 field (to_str_list lib) kvs ''personalized_recommendations'';
               v_programs \<leftarrow>
                 field (to_str_list lib) kvs ''recommended_lifestyle_programs'';
               Some \<lparr>patient_id = patient_id patient, name = name patient,
                 age = age patient, gender = gender patient,
                 bmi = bmi_value,
                 bp = str_int (bp_systolic patient) @ ''/''
                        @ str_int (bp_diastolic patient) @ '' mmHg'',
                 glucose_hba1c = glucose_hba1c_text lib patient,
                 lipid_profile = ''Total: '' @ str_int (total_cholesterol patient)
                   @ '', HDL: '' @ str_int (hdl patient) @ '', LDL: ''
                   @ str_int (ldl patient) @ '', Trig: ''
                   @ str_int (triglycerides patient),
                 summary = v_summary, risk_score = v_risk_score,
                 risk_bucket = v_risk_bucket, contributing_factors = v_factors,
                 potential_future_risks = v_risks,
                 personalized_recommendations = v_recommendations,
                 recommended_lifestyle_programs = v_programs\<rparr>
             } of
               None \<Rightarrow> Inl ValidationError
             | Some response \<Rightarrow> Inr response)
      | _ \<Rightarrow> Inl TypeError)"

text \<open>
  The handler returns the response or the exception that leaves it, together with the
  number of calls made to the generative model: none when the BMI raises, one
  otherwise (\<^verbatim>\<open>analyze_with_gemini\<close> calls \<^verbatim>\<open>generate_content\<close> once).
\<close>

definition analyze_patient ::
  "library \<Rightarrow> (string \<Rightarrow> reply) \<Rightarrow> PatientInput
     \<Rightarrow> (py_error + ClinicalSummaryResponse) \<times> nat" where
  "analyze_patient lib generate_content patient =
     (case calculate_bmi (weight_kg patient) (height_cm patient) of
        Inl e \<Rightarrow> (Inl e, 0)
      | Inr bmi_value \<Rightarrow>
          (build_response lib patient bmi_value
             (analyze_with_gemini lib generate_content patient bmi_value), 1))"

text \<open>
  The route: the framework validates the body before it calls the handler (status 422
  and no call of the handler when the validation fails), answers 200 with the
  handler's response, and 500 when an exception leaves the handler.
\<close>

datatype http_response =
    Ok_200 ClinicalSummaryResponse
  | Unprocessable_422
  | Internal_Server_Error_500 py_error

fun status_code :: "http_response \<Rightarrow> nat" where
  "status_code (Ok_200 r) = 200"
| "status_code Unprocessable_422 = 422"
| "status_code (Internal_Server_Error_500 e) = 500"

fun response_body :: "http_response \<Rightarrow> ClinicalSummaryResponse option" where
  "response_body (Ok_200 r) = Some r"
| "response_body Unprocessable_422 = None"
| "response_body (Internal_Server_Error_500 e) = None"

definition post_analyze ::
  "library \<Rightarrow> (string \<Rightarrow> reply) \<Rightarrow> json \<Rightarrow> http_response \<times> nat" where
  "post_analyze lib generate_content body =
     (case validate lib body of
        Inl e \<Rightarrow> (Unprocessable_422, 0)
      | Inr patient \<Rightarrow>
          (case analyze_patient lib generate_content patient of
             (Inl e, calls) \<Rightarrow> (Internal_Server_Error_500 e, calls)
           | (Inr response, calls) \<Rightarrow> (Ok_200 response, calls)))"

subsection \<open>The vocabulary of the specification\<close>

text \<open>The three risk buckets and the nine programs that the prompt asks for.\<close>

definition risk_buckets :: "string set" where
  "risk_buckets = {''Normal'', ''Potential Risk'', ''High Risk''}"

definition program_catalog :: "string set" where
  "program_catalog = {''Weight Management & Nutrition'', ''Diabetes Prevention Program'',
     ''Hypertension Control'', ''Smoking Cessation Support'', ''Active Lifestyle & Fitness'',
     ''Heart Health & Cholesterol'', ''Stress & Sleep Optimization'',
     ''Alcohol Reduction Program'', ''General Wellness Checkup''}"

text \<open>
  The invariant that the data model states for a patient record: blood pressure and
  glucose are not negative, age, height and weight are positive.
\<close>

definition patient_invariant :: "PatientInput \<Rightarrow> bool" where
  "patient_invariant patient \<longleftrightarrow>
     0 \<le> bp_systolic patient \<and> 0 \<le> bp_diastolic patient \<and> 0 \<le> fasting_glucose patient
     \<and> 0 < age patient \<and> 0 < height_cm patient \<and> 0 < weight_kg patient"

subsection \<open>Sample data\<close>

text \<open>
  A request body with every field, and the record that validation makes of it.
\<close>

definition sample_body :: json where
  "sample_body = JObject [
     (''patient_id'', JString ''P001''), (''name'', JString ''Asha''), (''age'', JInt 52),
     (''gender'', JString ''F''), (''height_cm'', JFloat 175), (''weight_kg'', JFloat 70),
     (''bp_systolic'', JInt 150), (''bp_diastolic'', JInt 95),
     (''fasting_glucose'', JInt 130), (''hba1c'', JFloat (13 / 2)),
     (''total_cholesterol'', JInt 240), (''hdl'', JInt 38), (''ldl'', JInt 160),
     (''triglycerides'', JInt 210), (''smoker'', JBool True),
     (''alcohol_units_per_week'', JInt 4), (''physical_activity_min_per_week'', JInt 30),
     (''notes'', JNull)]"

definition sample_patient :: PatientInput where
  "sample_patient = \<lparr>patient_id = ''P001'', name = ''Asha'', age = 52, gender = ''F'',
     height_cm = 175, weight_kg = 70, bp_systolic = 150, bp_diastolic = 95,
     fasting_glucose = 130, hba1c = Some (13 / 2), total_cholesterol = 240, hdl = 38,
     ldl = 160, triglycerides = 210, smoker = True, alcohol_units_per_week = Some 4,
     physical_activity_min_per_week = Some 30, notes = None\<rparr>"

text \<open>
  Two answers of the generative model: a fenced JSON document whose values ignore the
  lists of the prompt, and a JSON document without any of the expected keys.
\<close>

definition off_list_text :: string where
  \<open>off_list_text = ''```json\<newline>{"summary": "Stable.", "risk_score": 40, ''
     @ ''"risk_bucket": "Moderate", "contributing_factors": [], ''
     @ ''"potential_future_risks": [], "personalized_recommendations": [], ''
     @ ''"recommended_lifestyle_programs": ["Yoga Retreat"]}\<newline>```''\<close>

definition off_list_json :: json where
  "off_list_json = JObject [
     (''summary'', JString ''Stable.''), (''risk_score'', JInt 40),
     (''risk_bucket'', JString ''Moderate''), (''contributing_factors'', JArray []),
     (''potential_future_risks'', JArray []), (''personalized_recommendations'', JArray []),
     (''recommended_lifestyle_programs'', JArray [JString ''Yoga Retreat''])]"

definition empty_object_text :: string where
  "empty_object_text = ''{}''"

text \<open>
  The library at the arguments the examples use: \<^verbatim>\<open>json.loads\<close> on the two
  documents above (any other text counts as undecodable), the printing of the floats
  of the sample patient, an integer accepted for a \<^verbatim>\<open>float\<close> field, and no other
  conversion.
\<close>

definition sample_library :: library where
  \<open>sample_library = \<lparr>
     loads = (\<lambda>s.
       if s = ''{"summary": "Stable.", "risk_score": 40, "risk_bucket": "Moderate", ''
            @ ''"contributing_factors": [], "potential_future_risks": [], ''
            @ ''"personalized_recommendations": [], ''
            @ ''"recommended_lifestyle_programs": ["Yoga Retreat"]}''
       then Some off_list_json
       else if s = ''{}'' then Some (JObject [])
       else None),
     float_str = (\<lambda>q.
       if q = 175 then ''175.0'' else if q = 70 then ''70.0''
       else if q = 229 / 10 then ''22.9'' else if q = 13 / 2 then ''6.5'' else ''0.0''),
     lax_str = (\<lambda>v. None),
     lax_int = (\<lambda>v. None),
     lax_float = (\<lambda>v. case v of JInt n \<Rightarrow> Some (of_int n) | _ \<Rightarrow> None),
     lax_bool = (\<lambda>v. None)\<rparr>\<close>

text \<open>
  A request body whose height is zero and whose optional fields are absent, and the
  record that validation makes of it.
\<close>

definition zero_height_body :: json where
  "zero_height_body = JObject [
     (''patient_id'', JString ''P002''), (''name'', JString ''Binod''), (''age'', JInt 40),
     (''gender'', JString ''M''), (''height_cm'', JFloat 0), (''weight_kg'', JFloat 70),
     (''bp_systolic'', JInt 120), (''bp_diastolic'', JInt 80),
     (''fasting_glucose'', JInt 90), (''total_cholesterol'', JInt 180), (''hdl'', JInt 50),
     (''ldl'', JInt 100), (''triglycerides'', JInt 140)]"

definition zero_height_patient :: PatientInput where
  "zero_height_patient = \<lparr>patient_id = ''P002'', name = ''Binod'', age = 40, gender = ''M'',
     height_cm = 0, weight_kg = 70, bp_systolic = 120, bp_diastolic = 80,
     fasting_glucose = 90, hba1c = None, total_cholesterol = 180, hdl = 50,
     ldl = 100, triglycerides = 140, smoker = False, alcohol_units_per_week = Some 0,
     physical_activity_min_per_week = Some 0, notes = None\<rparr>"

text \<open>
  The response to the sample request when the generative model answers with
  \<open>off_list_text\<close>.
\<close>

definition off_list_response :: ClinicalSummaryResponse where
  "off_list_response = \<lparr>patient_id = ''P001'', name = ''Asha'', age = 52, gender = ''F'',
     bmi = 229 / 10, bp = ''150/95 mmHg'', glucose_hba1c = ''130 mg/dL (HbA1c 6.5%)'',
     lipid_profile = ''Total: 240, HDL: 38, LDL: 160, Trig: 210'',
     summary = ''Stable.'', risk_score = 40, risk_bucket = ''Moderate'',
     contributing_factors = [], potential_future_risks = [],
     personalized_recommendations = [],
     recommended_lifestyle_programs = [''Yoga Retreat'']\<rparr>"

subsection \<open>The declaration of \<^verbatim>\<open>PatientInput\<close> as a table\<close>

text \<open>
  The fields of the class in its order: the key, whether the field is required (it has
  no default), and whether validation accepts a given value for it.
\<close>

definition patient_fields :: "library \<Rightarrow> (string \<times> bool \<times> (json \<Rightarrow> bool)) list" where
  "patient_fields lib = [
     (''patient_id'', True, \<lambda>v. to_str lib v \<noteq> None),
     (''name'', True, \<lambda>v. to_str lib v \<noteq> None),
     (''age'', True, \<lambda>v. to_int lib v \<noteq> None),
     (''gender'', True, \<lambda>v. to_str lib v \<noteq> None),
     (''height_cm'', True, \<lambda>v. to_float lib v \<noteq> None),
     (''weight_kg'', True, \<lambda>v. to_float lib v \<noteq> None),
     (''bp_systolic'', True, \<lambda>v. to_int lib v \<noteq> None),
     (''bp_diastolic'', True, \<lambda>v. to_int lib v \<noteq> None),
     (''fasting_glucose'', True, \<lambda>v. to_int lib v \<noteq> None),
     (''hba1c'', False, \<lambda>v. optional (to_float lib) v \<noteq> None),
     (''total_cholesterol'', True, \<lambda>v. to_int lib v \<noteq> None),
     (''hdl'', True, \<lambda>v. to_int lib v \<noteq> None),
     (''ldl'', True, \<lambda>v. to_int lib v \<noteq> None),
     (''triglycerides'', True, \<lambda>v. to_int lib v \<noteq> None),
     (''smoker'', False, \<lambda>v. to_bool lib v \<noteq> None),
     (''alcohol_units_per_week'', False, \<lambda>v. optional (to_int lib) v \<noteq> None),
     (''physical_activity_min_per_week'', False, \<lambda>v. optional (to_int lib) v \<noteq> None),
     (''notes'', False, \<lambda>v. optional (to_str lib) v \<noteq> None)]"

text \<open>
  A body is defective at a field when the field is required and absent, or present
  with a value that the validation of its type rejects.
\<close>

definition field_rejected :: "(string \<times> json) list \<Rightarrow> string \<times> bool \<times> (json \<Rightarrow> bool) \<Rightarrow> bool" where
  "field_rejected kvs f =
     (case f of (k, required, accepts) \<Rightarrow>
        (case map_of kvs k of None \<Rightarrow> required | Some v \<Rightarrow> \<not> accepts v))"

text \<open>The JSON document that carries a given record, every key present.\<close>

definition patient_body :: "PatientInput \<Rightarrow> json" where
  "patient_body p = JObject [
     (''patient_id'', JString (patient_id p)), (''name'', JString (name p)),
     (''age'', JInt (age p)), (''gender'', JString (gender p)),
     (''height_cm'', JFloat (height_cm p)), (''weight_kg'', JFloat (weight_kg p)),
     (''bp_systolic'', JInt (bp_systolic p)), (''bp_diastolic'', JInt (bp_diastolic p)),
     (''fasting_glucose'', JInt (fasting_glucose p)),
     (''hba1c'', case hba1c p of None \<Rightarrow> JNull | Some q \<Rightarrow> JFloat q),
     (''total_cholesterol'', JInt (total_cholesterol p)), (''hdl'', JInt (hdl p)),
     (''ldl'', JInt (ldl p)), (''triglycerides'', JInt (triglycerides p)),
     (''smoker'', JBool (smoker p)),
     (''alcohol_units_per_week'',
        case alcohol_units_per_week p of None \<Rightarrow> JNull | Some n \<Rightarrow> JInt n),
     (''physical_activity_min_per_week'',
        case physical_activity_min_per_week p of None \<Rightarrow> JNull | Some n \<Rightarrow> JInt n),
     (''notes'', case notes p of None \<Rightarrow> JNull | Some s \<Rightarrow> JString s)]"

subsection \<open>Further sample data\<close>

text \<open>
  A record whose numbers are zero or negative, and a request body that carries it.
\<close>

definition negative_patient :: PatientInput where
  "negative_patient = \<lparr>patient_id = ''P003'', name = ''Chitra'', age = - 5, gender = ''F'',
     height_cm = - 160, weight_kg = 0, bp_systolic = - 120, bp_diastolic = - 80,
     fasting_glucose = - 1, hba1c = None, total_cholesterol = 0, hdl = 0,
     ldl = 0, triglycerides = 0, smoker = False, alcohol_units_per_week = None,
     physical_activity_min_per_week = None, notes = None\<rparr>"

definition negative_body :: json where
  "negative_body = JObject [
     (''patient_id'', JString ''P003''), (''name'', JString ''Chitra''), (''age'', JInt (- 5)),
     (''gender'', JString ''F''), (''height_cm'', JFloat (- 160)), (''weight_kg'', JFloat 0),
     (''bp_systolic'', JInt (- 120)), (''bp_diastolic'', JInt (- 80)),
     (''fasting_glucose'', JInt (- 1)), (''total_cholesterol'', JInt 0), (''hdl'', JInt 0),
     (''ldl'', JInt 0), (''triglycerides'', JInt 0),
     (''alcohol_units_per_week'', JNull), (''physical_activity_min_per_week'', JNull)]"




section \<open>Properties\<close>

subsection \<open>Auxiliary facts\<close>

lemma calculate_bmi_zero_height: "calculate_bmi w 0 = Inl ZeroDivisionError"
  by (simp add: calculate_bmi_def)

lemma calculate_bmi_Inr_iff:
  "calculate_bmi w h = Inr b \<longleftrightarrow> h \<noteq> 0 \<and> b = py_round1 (w / (h / 100) ^ 2)"
  by (auto simp: calculate_bmi_def Let_def)

lemma calculate_bmi_example: "calculate_bmi 70 175 = Inr (229 / 10)"
  by code_simp

lemma sample_bmi:
  "calculate_bmi (weight_kg sample_patient) (height_cm sample_patient) = Inr (229 / 10)"
  by (simp add: sample_patient_def calculate_bmi_example)

lemma validate_sample: "validate lib sample_body = Inr sample_patient"
  by (simp add: validate_def sample_body_def parse_patient_def field_def field_default_def
    to_str_def to_int_def to_float_def to_bool_def optional_def sample_patient_def)

lemma try_provider_None_iff:
  "try_provider lib gen prompt = None \<longleftrightarrow>
     gen prompt = Raises \<or> (\<exists>t. gen prompt = Text t \<and> loads lib (clean_text t) = None)"
  by (simp add: try_provider_def split: reply.splits)

text \<open>The response built from the fallback dictionary: the construction never fails.\<close>

lemma build_response_fallback:
  "build_response lib p b (fallback p) = Inr \<lparr>patient_id = patient_id p, name = name p,
     age = age p, gender = gender p, bmi = b,
     bp = str_int (bp_systolic p) @ ''/'' @ str_int (bp_diastolic p) @ '' mmHg'',
     glucose_hba1c = glucose_hba1c_text lib p,
     lipid_profile = ''Total: '' @ str_int (total_cholesterol p) @ '', HDL: ''
       @ str_int (hdl p) @ '', LDL: '' @ str_int (ldl p) @ '', Trig: ''
       @ str_int (triglycerides p),
     summary = ''High-risk profile detected for '' @ name p
       @ '' with multiple cardiovascular and metabolic risk factors.'',
     risk_score = 82, risk_bucket = ''High Risk'',
     contributing_factors = [''Obesity'', ''Hypertension'', ''Dyslipidemia'',
       ''Prediabetes/Diabetes'', if smoker p then ''Smoking'' else ''Sedentary lifestyle''],
     potential_future_risks = [''Heart Attack'', ''Stroke'', ''Type 2 Diabetes'',
       ''Kidney Disease'', ''Peripheral Artery Disease''],
     personalized_recommendations = [''Lose 8-10% body weight in 6 months'',
       ''Walk 40 mins daily'', ''Follow DASH or Mediterranean diet'',
       if smoker p then ''Quit smoking immediately''
       else ''Increase activity to 200+ min/week'',
       ''Limit salt <5g/day'', ''Sleep 7-9 hours'', ''Monitor BP daily'',
       ''Repeat HbA1c in 3 months''],
     recommended_lifestyle_programs = [''Weight Management & Nutrition'',
       ''Hypertension Control'', ''Diabetes Prevention Program'',
       ''Heart Health & Cholesterol'']\<rparr>"
  by (simp add: build_response_def fallback_def explicit_keywords_def field_def
    to_str_def to_int_def to_str_list_def)

lemma analyze_patient_fallback:
  assumes "calculate_bmi (weight_kg p) (height_cm p) = Inr b"
    and "try_provider lib gen (build_prompt lib p b) = None"
  shows "analyze_patient lib gen p = (build_response lib p b (fallback p), 1)"
  using assms by (simp add: analyze_patient_def analyze_with_gemini_def)

lemma clean_text_empty_object: "clean_text empty_object_text = ''{}''"
  by (simp add: clean_text_def empty_object_text_def strip_def is_space_def)

subsection \<open>Provider failures and the fallback\<close>

text \<open>
  A JSON object without the expected keys is not an exception of the \<^verbatim>\<open>try\<close>; it
  fails later, in the construction of the response, whatever the library's conversions.
\<close>

lemma build_response_empty_object:
  "build_response lib p b (JObject []) = Inl ValidationError"
  by (simp add: build_response_def field_def)

text \<open>
  Claim C1. The claim: on any failure of the provider call or of the parsing of its
  answer, missing keys in the parsed JSON included, the fallback analysis is used and
  the caller receives status 200. The code at a valid request whose provider answers
  with the JSON document \<^verbatim>\<open>{}\<close>: \<^verbatim>\<open>json.loads\<close> succeeds, so the \<^verbatim>\<open>except\<close>
  branch is not taken, the construction of the response raises a validation error
  outside the \<^verbatim>\<open>try\<close>, and the caller receives status 500 after one provider call.
\<close>

theorem missing_keys_surface_as_error:
  "post_analyze sample_library (\<lambda>prompt. Text empty_object_text) sample_body
     = (Internal_Server_Error_500 ValidationError, 1)"
  by (simp add: post_analyze_def validate_sample analyze_patient_def sample_bmi
    analyze_with_gemini_def try_provider_def clean_text_empty_object sample_library_def
    build_response_def field_def)

text \<open>
  Claim C5. Whenever the fallback is used, that is when the provider call raises or
  \<^verbatim>\<open>json.loads\<close> rejects the cleaned text, the request is answered with status 200 and
  the hard-coded analysis: risk score 82, bucket \<^verbatim>\<open>High Risk\<close>, the fixed lists, and
  among the contributing factors \<^verbatim>\<open>Smoking\<close> exactly when the patient smokes and
  \<^verbatim>\<open>Sedentary lifestyle\<close> exactly when the patient does not.
\<close>

theorem fallback_high_risk_payload:
  assumes "validate lib body = Inr p"
    and "calculate_bmi (weight_kg p) (height_cm p) = Inr b"
    and "gen (build_prompt lib p b) = Raises
         \<or> (\<exists>t. gen (build_prompt lib p b) = Text t \<and> loads lib (clean_text t) = None)"
  shows "\<exists>r. post_analyze lib gen body = (Ok_200 r, 1)
     \<and> summary r = ''High-risk profile detected for '' @ name p
          @ '' with multiple cardiovascular and metabolic risk factors.''
     \<and> risk_score r = 82
     \<and> risk_bucket r = ''High Risk''
     \<and> contributing_factors r = [''Obesity'', ''Hypertension'', ''Dyslipidemia'',
          ''Prediabetes/Diabetes'', if smoker p then ''Smoking'' else ''Sedentary lifestyle'']
     \<and> (''Smoking'' \<in> set (contributing_factors r) \<longleftrightarrow> smoker p)
     \<and> (''Sedentary lifestyle'' \<in> set (contributing_factors r) \<longleftrightarrow> \<not> smoker p)
     \<and> potential_future_risks r = [''Heart Attack'', ''Stroke'', ''Type 2 Diabetes'',
          ''Kidney Disease'', ''Peripheral Artery Disease'']
     \<and> personalized_recommendations r = [''Lose 8-10% body weight in 6 months'',
          ''Walk 40 mins daily'', ''Follow DASH or Mediterranean diet'',
          if smoker p then ''Quit smoking immediately''
          else ''Increase activity to 200+ min/week'',
          ''Limit salt <5g/day'', ''Sleep 7-9 hours'', ''Monitor BP daily'',
          ''Repeat HbA1c in 3 months'']
     \<and> recommended_lifestyle_programs r = [''Weight Management & Nutrition'',
          ''Hypertension Control'', ''Diabetes Prevention Program'',
          ''Heart Health & Cholesterol'']"
proof -
  from assms(3) have "try_provider lib gen (build_prompt lib p b) = None"
    by (simp add: try_provider_None_iff)
  with assms(2) have "analyze_patient lib gen p = (build_response lib p b (fallback p), 1)"
    by (rule analyze_patient_fallback)
  with assms(1) show ?thesis
    by (simp add: post_analyze_def build_response_fallback)
qed

theorem fallback_high_risk_payload_witness:
  "validate sample_library sample_body = Inr sample_patient
   \<and> calculate_bmi (weight_kg sample_patient) (height_cm sample_patient) = Inr (229 / 10)
   \<and> map_option risk_bucket
       (response_body (fst (post_analyze sample_library (\<lambda>prompt. Raises) sample_body)))
     = Some ''High Risk''
   \<and> map_option contributing_factors
       (response_body (fst (post_analyze sample_library (\<lambda>prompt. Raises) sample_body)))
     = Some [''Obesity'', ''Hypertension'', ''Dyslipidemia'', ''Prediabetes/Diabetes'',
         ''Smoking'']"
  using fallback_high_risk_payload [OF validate_sample sample_bmi,
      of "\<lambda>prompt. Raises" sample_library]
  by (auto simp: validate_sample sample_bmi calculate_bmi_example sample_patient_def)

text \<open>
  Claim C8, as stated: two patient records with the same smoker flag get the same
  fallback analysis. It fails: the summary of the fallback quotes the patient's name.
\<close>

theorem fallback_differs_with_name:
  "smoker sample_patient = smoker (sample_patient\<lparr>name := ''Ravi''\<rparr>)
   \<and> fallback sample_patient \<noteq> fallback (sample_patient\<lparr>name := ''Ravi''\<rparr>)"
  by (simp add: fallback_def sample_patient_def)

text \<open>
  Claim C8, amended: the fallback analysis depends on the patient's name and smoker
  flag only; two records that agree on both get the same fallback analysis.
\<close>

theorem fallback_depends_on_name_and_smoker:
  "name p = name q \<Longrightarrow> smoker p = smoker q \<Longrightarrow> fallback p = fallback q"
  by (simp add: fallback_def)

theorem fallback_depends_on_name_and_smoker_witness:
  "name sample_patient = name (sample_patient\<lparr>age := 30, hdl := 60, notes := Some ''x''\<rparr>)
   \<and> smoker sample_patient
       = smoker (sample_patient\<lparr>age := 30, hdl := 60, notes := Some ''x''\<rparr>)
   \<and> fallback sample_patient
       = fallback (sample_patient\<lparr>age := 30, hdl := 60, notes := Some ''x''\<rparr>)"
  using fallback_depends_on_name_and_smoker
    [of sample_patient "sample_patient\<lparr>age := 30, hdl := 60, notes := Some ''x''\<rparr>"]
  by simp

subsection \<open>A zero height\<close>

lemma validate_zero_height: "validate lib zero_height_body = Inr zero_height_patient"
  by (simp add: validate_def zero_height_body_def parse_patient_def field_def
    field_default_def to_str_def to_int_def to_float_def zero_height_patient_def)

lemma analyze_patient_zero_height:
  "height_cm p = 0 \<Longrightarrow> analyze_patient lib gen p = (Inl ZeroDivisionError, 0)"
  by (simp add: analyze_patient_def calculate_bmi_zero_height)

text \<open>
  Claim C9. Input validation accepts a record whose \<^verbatim>\<open>height_cm\<close> is zero. For
  such a record the division in \<^verbatim>\<open>calculate_bmi\<close> raises \<^verbatim>\<open>ZeroDivisionError\<close>;
  the BMI is computed before \<^verbatim>\<open>analyze_with_gemini\<close> is entered, so the exception
  leaves the handler: no provider call, no fallback, status 500.
\<close>

theorem zero_height_unguarded:
  "validate lib zero_height_body = Inr zero_height_patient
   \<and> height_cm zero_height_patient = 0
   \<and> calculate_bmi w 0 = Inl ZeroDivisionError
   \<and> analyze_patient lib gen (p\<lparr>height_cm := 0\<rparr>) = (Inl ZeroDivisionError, 0)
   \<and> post_analyze lib gen zero_height_body
       = (Internal_Server_Error_500 ZeroDivisionError, 0)"
proof -
  have zero: "height_cm zero_height_patient = 0"
    by (simp add: zero_height_patient_def)
  then have "analyze_patient lib gen zero_height_patient = (Inl ZeroDivisionError, 0)"
    by (rule analyze_patient_zero_height)
  then have "post_analyze lib gen zero_height_body
      = (Internal_Server_Error_500 ZeroDivisionError, 0)"
    by (simp add: post_analyze_def validate_zero_height)
  moreover have "analyze_patient lib gen (p\<lparr>height_cm := 0\<rparr>) = (Inl ZeroDivisionError, 0)"
    by (simp add: analyze_patient_zero_height)
  ultimately show ?thesis
    using zero by (simp add: validate_zero_height calculate_bmi_zero_height)
qed

subsection \<open>A zero HbA1c\<close>








lemma str_int_examples: "str_int 130 = ''130''" "str_int 150 = ''150''" "str_int 95 = ''95''"
  "str_int 240 = ''240''" "str_int 38 = ''38''" "str_int 160 = ''160''" "str_int 210 = ''210''"
  by code_simp+



lemma clean_text_off_list:
  \<open>clean_text off_list_text =
     ''{"summary": "Stable.", "risk_score": 40, "risk_bucket": "Moderate", ''
     @ ''"contributing_factors": [], "potential_future_risks": [], ''
     @ ''"personalized_recommendations": [], ''
     @ ''"recommended_lifestyle_programs": ["Yoga Retreat"]}''\<close>
  by code_simp

lemma try_provider_off_list:
  "try_provider sample_library (\<lambda>prompt. Text off_list_text) prompt = Some off_list_json"
  by (simp add: try_provider_def clean_text_off_list sample_library_def)

lemma build_response_off_list:
  "build_response sample_library sample_patient (229 / 10) off_list_json = Inr off_list_response"
  by (simp add: build_response_def off_list_json_def explicit_keywords_def field_def
    to_str_def to_int_def to_str_list_def off_list_response_def sample_patient_def
    glucose_hba1c_text_def float_or_def sample_library_def str_int_examples)

subsection \<open>What the response takes from the provider\<close>

lemma post_analyze_off_list:
  "post_analyze sample_library (\<lambda>prompt. Text off_list_text) sample_body
     = (Ok_200 off_list_response, 1)"
  by (simp add: post_analyze_def validate_sample analyze_patient_def sample_bmi
    analyze_with_gemini_def try_provider_off_list build_response_off_list)

lemma build_response_Inr_fields:
  assumes "build_response lib p b j = Inr r"
  shows "\<exists>kvs. j = JObject kvs
     \<and> field (to_str lib) kvs ''summary'' = Some (summary r)
     \<and> field (to_int lib) kvs ''risk_score'' = Some (risk_score r)
     \<and> field (to_str lib) kvs ''risk_bucket'' = Some (risk_bucket r)
     \<and> field (to_str_list lib) kvs ''contributing_factors'' = Some (contributing_factors r)
     \<and> field (to_str_list lib) kvs ''potential_future_risks''
         = Some (potential_future_risks r)
     \<and> field (to_str_list lib) kvs ''personalized_recommendations''
         = Some (personalized_recommendations r)
     \<and> field (to_str_list lib) kvs ''recommended_lifestyle_programs''
         = Some (recommended_lifestyle_programs r)"
  using assms
  by (cases j) (auto simp: build_response_def bind_eq_Some_conv split: if_splits option.splits)

lemma post_analyze_Ok_iff:
  assumes "validate lib body = Inr p" and "calculate_bmi (weight_kg p) (height_cm p) = Inr b"
  shows "post_analyze lib gen body = (Ok_200 r, n) \<longleftrightarrow>
     n = 1 \<and> build_response lib p b (analyze_with_gemini lib gen p b) = Inr r"
  using assms by (auto simp: post_analyze_def analyze_patient_def split: sum.splits)

text \<open>
  Claim C2, as stated: the \<^verbatim>\<open>risk_bucket\<close> of every response is one of
  \<^verbatim>\<open>Normal\<close>, \<^verbatim>\<open>Potential Risk\<close>, \<^verbatim>\<open>High Risk\<close>. It fails: the response model
  declares \<^verbatim>\<open>risk_bucket: str\<close>, and a provider answer with another bucket is
  returned with status 200.
\<close>

theorem risk_bucket_outside_set:
  "status_code (fst (post_analyze sample_library (\<lambda>prompt. Text off_list_text) sample_body))
     = 200
   \<and> map_option risk_bucket (response_body
       (fst (post_analyze sample_library (\<lambda>prompt. Text off_list_text) sample_body)))
     = Some ''Moderate''
   \<and> ''Moderate'' \<notin> risk_buckets"
  by (simp add: post_analyze_off_list off_list_response_def risk_buckets_def)

text \<open>
  Claim C2, amended: in every response with status 200 the \<^verbatim>\<open>risk_bucket\<close> is
  \<^verbatim>\<open>High Risk\<close> (one of the three buckets) when the fallback is used, and otherwise
  the string that validation makes of the \<^verbatim>\<open>risk_bucket\<close> member of the provider's
  JSON object, whatever it is.
\<close>

theorem risk_bucket_passed_through:
  assumes "validate lib body = Inr p"
    and "calculate_bmi (weight_kg p) (height_cm p) = Inr b"
    and "post_analyze lib gen body = (Ok_200 r, n)"
  shows "case try_provider lib gen (build_prompt lib p b) of
           None \<Rightarrow> risk_bucket r = ''High Risk'' \<and> risk_bucket r \<in> risk_buckets
         | Some j \<Rightarrow> (\<exists>kvs. j = JObject kvs
              \<and> field (to_str lib) kvs ''risk_bucket'' = Some (risk_bucket r))"
proof (cases "try_provider lib gen (build_prompt lib p b)")
  case None
  with assms have "build_response lib p b (fallback p) = Inr r"
    by (simp add: post_analyze_Ok_iff analyze_with_gemini_def)
  then have "risk_bucket r = ''High Risk''"
    by (auto simp: build_response_fallback)
  with None show ?thesis
    by (simp add: risk_buckets_def)
next
  case (Some j)
  with assms have "build_response lib p b j = Inr r"
    by (simp add: post_analyze_Ok_iff analyze_with_gemini_def)
  from build_response_Inr_fields [OF this] Some show ?thesis
    by auto
qed

theorem risk_bucket_passed_through_witness:
  "validate sample_library sample_body = Inr sample_patient
   \<and> calculate_bmi (weight_kg sample_patient) (height_cm sample_patient) = Inr (229 / 10)
   \<and> post_analyze sample_library (\<lambda>prompt. Text off_list_text) sample_body
       = (Ok_200 off_list_response, 1)
   \<and> risk_bucket off_list_response = ''Moderate''"
  using risk_bucket_passed_through [OF validate_sample sample_bmi post_analyze_off_list]
  by (auto simp: validate_sample sample_bmi post_analyze_off_list try_provider_off_list
    off_list_json_def field_def to_str_def)

text \<open>
  Claim C3, as stated: every element of \<^verbatim>\<open>recommended_lifestyle_programs\<close> of every
  response belongs to the catalog of nine programs. It fails: the response model
  declares \<^verbatim>\<open>List[str]\<close>, and a provider answer with another program is returned with
  status 200.
\<close>

theorem program_outside_catalog:
  "status_code (fst (post_analyze sample_library (\<lambda>prompt. Text off_list_text) sample_body))
     = 200
   \<and> map_option recommended_lifestyle_programs (response_body
       (fst (post_analyze sample_library (\<lambda>prompt. Text off_list_text) sample_body)))
     = Some [''Yoga Retreat'']
   \<and> ''Yoga Retreat'' \<notin> program_catalog"
  by (simp add: post_analyze_off_list off_list_response_def program_catalog_def)

text \<open>
  Claim C3, amended: in every response with status 200 the list
  \<^verbatim>\<open>recommended_lifestyle_programs\<close> is the four hard-coded programs (all in the
  catalog) when the fallback is used, and otherwise the list of strings that
  validation makes of the member of that name of the provider's JSON object, whatever
  its elements are.
\<close>

theorem programs_passed_through:
  assumes "validate lib body = Inr p"
    and "calculate_bmi (weight_kg p) (height_cm p) = Inr b"
    and "post_analyze lib gen body = (Ok_200 r, n)"
  shows "case try_provider lib gen (build_prompt lib p b) of
           None \<Rightarrow> recommended_lifestyle_programs r = [''Weight Management & Nutrition'',
               ''Hypertension Control'', ''Diabetes Prevention Program'',
               ''Heart Health & Cholesterol'']
             \<and> set (recommended_lifestyle_programs r) \<subseteq> program_catalog
         | Some j \<Rightarrow> (\<exists>kvs. j = JObject kvs
              \<and> field (to_str_list lib) kvs ''recommended_lifestyle_programs''
                  = Some (recommended_lifestyle_programs r))"
proof (cases "try_provider lib gen (build_prompt lib p b)")
  case None
  with assms have "build_response lib p b (fallback p) = Inr r"
    by (simp add: post_analyze_Ok_iff analyze_with_gemini_def)
  then have "recommended_lifestyle_programs r = [''Weight Management & Nutrition'',
      ''Hypertension Control'', ''Diabetes Prevention Program'', ''Heart Health & Cholesterol'']"
    by (auto simp: build_response_fallback)
  with None show ?thesis
    by (simp add: program_catalog_def)
next
  case (Some j)
  with assms have "build_response lib p b j = Inr r"
    by (simp add: post_analyze_Ok_iff analyze_with_gemini_def)
  from build_response_Inr_fields [OF this] Some show ?thesis
    by auto
qed

theorem programs_passed_through_witness:
  "validate sample_library sample_body = Inr sample_patient
   \<and> calculate_bmi (weight_kg sample_patient) (height_cm sample_patient) = Inr (229 / 10)
   \<and> post_analyze sample_library (\<lambda>prompt. Text off_list_text) sample_body
       = (Ok_200 off_list_response, 1)
   \<and> recommended_lifestyle_programs off_list_response = [''Yoga Retreat'']"
  using programs_passed_through [OF validate_sample sample_bmi post_analyze_off_list]
  by (auto simp: validate_sample sample_bmi post_analyze_off_list try_provider_off_list
    off_list_json_def field_def to_str_list_def to_str_def)

subsection \<open>Input validation\<close>

lemma parse_patient_eq_None_iff:
  "parse_patient lib kvs = None \<longleftrightarrow>
     field (to_str lib) kvs ''patient_id'' = None
     \<or> field (to_str lib) kvs ''name'' = None
     \<or> field (to_int lib) kvs ''age'' = None
     \<or> field (to_str lib) kvs ''gender'' = None
     \<or> field (to_float lib) kvs ''height_cm'' = None
     \<or> field (to_float lib) kvs ''weight_kg'' = None
     \<or> field (to_int lib) kvs ''bp_systolic'' = None
     \<or> field (to_int lib) kvs ''bp_diastolic'' = None
     \<or> field (to_int lib) kvs ''fasting_glucose'' = None
     \<or> field_default (optional (to_float lib)) kvs ''hba1c'' None = None
     \<or> field (to_int lib) kvs ''total_cholesterol'' = None
     \<or> field (to_int lib) kvs ''hdl'' = None
     \<or> field (to_int lib) kvs ''ldl'' = None
     \<or> field (to_int lib) kvs ''triglycerides'' = None
     \<or> field_default (to_bool lib) kvs ''smoker'' False = None
     \<or> field_default (optional (to_int lib)) kvs ''alcohol_units_per_week'' (Some 0) = None
     \<or> field_default (optional (to_int lib)) kvs ''physical_activity_min_per_week'' (Some 0)
         = None
     \<or> field_default (optional (to_str lib)) kvs ''notes'' None = None"
  by (simp add: parse_patient_def bind_eq_None_conv)




lemma rejected_required_iff:
  "field_rejected kvs (k, True, \<lambda>v. conv v \<noteq> None) \<longleftrightarrow> field conv kvs k = None"
  by (simp add: field_rejected_def field_def split: option.splits)

lemma rejected_default_iff:
  "field_rejected kvs (k, False, \<lambda>v. conv v \<noteq> None) \<longleftrightarrow> field_default conv kvs k d = None"
  by (simp add: field_rejected_def field_default_def split: option.splits)

text \<open>The table says exactly when the validation of an object fails.\<close>

lemma parse_patient_None_iff_rejected:
  "parse_patient lib kvs = None \<longleftrightarrow> list_ex (field_rejected kvs) (patient_fields lib)"
  by (simp add: patient_fields_def parse_patient_eq_None_iff rejected_required_iff [symmetric]
    rejected_default_iff [symmetric] del: not_None_eq)

lemma optional_null_or:
  "optional (to_float lib) (case x of None \<Rightarrow> JNull | Some q \<Rightarrow> JFloat q) = Some x"
  "optional (to_int lib) (case y of None \<Rightarrow> JNull | Some n \<Rightarrow> JInt n) = Some y"
  "optional (to_str lib) (case z of None \<Rightarrow> JNull | Some s \<Rightarrow> JString s) = Some z"
  by (simp_all add: optional_def to_float_def to_int_def to_str_def split: option.splits)

lemma parse_patient_body:
  "parse_patient lib [
     (''patient_id'', JString (patient_id p)), (''name'', JString (name p)),
     (''age'', JInt (age p)), (''gender'', JString (gender p)),
     (''height_cm'', JFloat (height_cm p)), (''weight_kg'', JFloat (weight_kg p)),
     (''bp_systolic'', JInt (bp_systolic p)), (''bp_diastolic'', JInt (bp_diastolic p)),
     (''fasting_glucose'', JInt (fasting_glucose p)),
     (''hba1c'', case hba1c p of None \<Rightarrow> JNull | Some q \<Rightarrow> JFloat q),
     (''total_cholesterol'', JInt (total_cholesterol p)), (''hdl'', JInt (hdl p)),
     (''ldl'', JInt (ldl p)), (''triglycerides'', JInt (triglycerides p)),
     (''smoker'', JBool (smoker p)),
     (''alcohol_units_per_week'',
        case alcohol_units_per_week p of None \<Rightarrow> JNull | Some n \<Rightarrow> JInt n),
     (''physical_activity_min_per_week'',
        case physical_activity_min_per_week p of None \<Rightarrow> JNull | Some n \<Rightarrow> JInt n),
     (''notes'', case notes p of None \<Rightarrow> JNull | Some s \<Rightarrow> JString s)]
   = Some (p :: PatientInput)"
  by (simp add: parse_patient_def field_def field_default_def optional_null_or
    to_str_def to_int_def to_float_def to_bool_def)

lemma validate_negative_body: "validate lib negative_body = Inr negative_patient"
  by (simp add: validate_def negative_body_def parse_patient_def field_def field_default_def
    to_str_def to_int_def to_float_def to_bool_def optional_def negative_patient_def)

text \<open>
  Claim C4, as stated: every record accepted by input validation has non-negative
  blood pressure and glucose and positive age, height and weight. It fails: the class
  declares types only, and a body with negative or zero numbers is accepted.
\<close>

theorem negative_record_accepted:
  "validate sample_library negative_body = Inr negative_patient
   \<and> \<not> patient_invariant negative_patient
   \<and> age negative_patient = - 5 \<and> height_cm negative_patient = - 160
   \<and> weight_kg negative_patient = 0 \<and> bp_systolic negative_patient = - 120"
  by (simp add: validate_negative_body patient_invariant_def negative_patient_def)

text \<open>
  Claim C4, amended: input validation checks the presence and the types of the fields
  only. Every record of the declared types, whatever the sign of its numbers, is
  accepted unchanged when it is posted as JSON; no accepted record is promised to
  have non-negative vitals or positive age, height or weight.
\<close>

theorem validation_checks_types_only:
  "validate lib (patient_body p) = Inr p"
  by (simp add: validate_def patient_body_def parse_patient_body)



end
